theory Spec2Isabelle
  imports Complex_Main
begin

section \<open>Tensors\<close>

text \<open>
  One-dimensional tensors are lists of reals; the arithmetic of \<open>PPOAgent.py\<close> is read
  over the reals (rounding of the 32-bit floats is not modelled). The tensor operations
  used by \<open>_perform_update\<close> are elementwise and are written with \<open>map\<close> and \<open>zip\<close>.
\<close>

type_synonym tensor = "real list"

definition t_sub :: "tensor \<Rightarrow> tensor \<Rightarrow> tensor" where
  "t_sub xs ys = map (\<lambda>(x, y). x - y) (zip xs ys)"

definition t_add :: "tensor \<Rightarrow> tensor \<Rightarrow> tensor" where
  "t_add xs ys = map (\<lambda>(x, y). x + y) (zip xs ys)"

definition t_mul :: "tensor \<Rightarrow> tensor \<Rightarrow> tensor" where
  "t_mul xs ys = map (\<lambda>(x, y). x * y) (zip xs ys)"

definition t_min :: "tensor \<Rightarrow> tensor \<Rightarrow> tensor" where
  "t_min xs ys = map (\<lambda>(x, y). min x y) (zip xs ys)"

definition t_max :: "tensor \<Rightarrow> tensor \<Rightarrow> tensor" where
  "t_max xs ys = map (\<lambda>(x, y). max x y) (zip xs ys)"

definition t_exp :: "tensor \<Rightarrow> tensor" where
  "t_exp xs = map exp xs"

definition t_pow2 :: "tensor \<Rightarrow> tensor" where
  "t_pow2 xs = map (\<lambda>x. x ^ 2) xs"

text \<open>\<open>torch.clamp(x, lo, hi)\<close> is \<open>min(max(x, lo), hi)\<close>.\<close>

definition clamp :: "real \<Rightarrow> real \<Rightarrow> real \<Rightarrow> real" where
  "clamp x lo hi = min (max x lo) hi"

definition t_clamp :: "tensor \<Rightarrow> real \<Rightarrow> real \<Rightarrow> tensor" where
  "t_clamp xs lo hi = map (\<lambda>x. clamp x lo hi) xs"

definition t_mean :: "tensor \<Rightarrow> real" where
  "t_mean xs = sum_list xs / real (length xs)"

text \<open>\<open>Tensor.std()\<close> is the sample standard deviation (Bessel's correction).\<close>

definition t_std :: "tensor \<Rightarrow> real" where
  "t_std xs = sqrt (sum_list (map (\<lambda>x. (x - t_mean xs) ^ 2) xs) / (real (length xs) - 1))"

text \<open>Indexing a tensor with a tensor of indices, \<open>xs[batch_indices]\<close>.\<close>

definition gather :: "'a list \<Rightarrow> nat list \<Rightarrow> 'a list" where
  "gather xs idx = map (\<lambda>i. xs ! i) idx"

section \<open>Rollout buffer\<close>

datatype action = Scalar real | Vector "real list"

record transition =
  t_state :: "real list"
  t_action :: action
  t_reward :: real
  t_value :: real
  t_log_prob :: real
  t_done :: bool

datatype py_error = ValueError | BufferFullError

text \<open>
  Modelled from the spec: the class \<open>PPOBuffer\<close> (\<open>src/buffers/ppo_buffer.py\<close>) is not
  among the sources. The buffer holds an ordered sequence of transitions up to a
  capacity; \<open>store\<close> appends and fails when the capacity is exceeded, \<open>clear\<close> resets
  the size to 0, \<open>len\<close> is the number of stored transitions.
\<close>

record ppo_buffer =
  capacity :: nat
  items :: "transition list"

definition buffer_len :: "ppo_buffer \<Rightarrow> nat" where
  "buffer_len b = length (items b)"

definition buffer_store :: "ppo_buffer \<Rightarrow> transition \<Rightarrow> py_error + ppo_buffer" where
  "buffer_store b tr =
     (if length (items b) < capacity b then Inr (b\<lparr>items := items b @ [tr]\<rparr>)
      else Inl BufferFullError)"

definition buffer_clear :: "ppo_buffer \<Rightarrow> ppo_buffer" where
  "buffer_clear b = b\<lparr>items := []\<rparr>"

text \<open>
  Modelled from the spec: \<open>PPOBuffer.compute_gae\<close>, the backward recursion of section 4.2,
  \<open>for t from T-1 downto 0\<close>. The loop state is the running \<open>gae\<close> and the two output
  arrays; \<open>gae_loop k\<close> runs the iterations \<open>t = k-1, ..., 0\<close>.
\<close>

definition gae_body ::
  "tensor \<Rightarrow> tensor \<Rightarrow> bool list \<Rightarrow> real \<Rightarrow> real \<Rightarrow> real \<Rightarrow> nat \<Rightarrow>
   real \<times> tensor \<times> tensor \<Rightarrow> real \<times> tensor \<times> tensor" where
  "gae_body rewards vals dones next_value gamma lam t st =
     (case st of (gae, advantages, returns) \<Rightarrow>
        let T = length rewards;
            next_v = (if t = T - 1 then next_value else vals ! (t + 1));
            mask = (if dones ! t then 0 else 1);
            delta = rewards ! t + gamma * next_v * mask - vals ! t;
            gae' = delta + gamma * lam * mask * gae
        in (gae', advantages[t := gae'], returns[t := gae' + vals ! t]))"

fun gae_loop ::
  "tensor \<Rightarrow> tensor \<Rightarrow> bool list \<Rightarrow> real \<Rightarrow> real \<Rightarrow> real \<Rightarrow> nat \<Rightarrow>
   real \<times> tensor \<times> tensor \<Rightarrow> real \<times> tensor \<times> tensor" where
  "gae_loop rewards vals dones next_value gamma lam 0 st = st"
| "gae_loop rewards vals dones next_value gamma lam (Suc t) st =
     gae_loop rewards vals dones next_value gamma lam t
       (gae_body rewards vals dones next_value gamma lam t st)"

definition compute_gae ::
  "tensor \<Rightarrow> tensor \<Rightarrow> bool list \<Rightarrow> real \<Rightarrow> real \<Rightarrow> real \<Rightarrow> tensor \<times> tensor" where
  "compute_gae rewards vals dones next_value gamma lam =
     (let T = length rewards
      in snd (gae_loop rewards vals dones next_value gamma lam T
                (0, replicate T 0, replicate T 0)))"

section \<open>Collaborators of the agent\<close>

text \<open>
  The networks, the running normalizer, the optimizers and the random number generator
  are not among the sources (\<open>ActorNetwork\<close>, \<open>CriticNetwork\<close>, \<open>RunningNormalizer\<close>,
  \<open>torch\<close>). Their operations are parameters of the model, applied row by row to a batch:
  \<open>'n\<close> is the normalizer's state, \<open>'p\<close> and \<open>'q\<close> the actor's and the critic's
  parameters (with the accumulators their Adam optimizers keep for them), \<open>'g\<close> the state
  of the random number generator.
\<close>

record optimizer =
  lr :: real
  opt_steps :: nat

record ('n, 'p, 'q, 'g) collab =
  rn_update :: "'n \<Rightarrow> real list \<Rightarrow> 'n"
  rn_normalize :: "'n \<Rightarrow> real list \<Rightarrow> real list"
  critic_forward :: "'q \<Rightarrow> real list \<Rightarrow> real"
  get_action_and_log_prob :: "'p \<Rightarrow> real list \<Rightarrow> 'g \<Rightarrow> (action \<times> real) \<times> 'g"
  dist_log_prob :: "'p \<Rightarrow> real list \<Rightarrow> action \<Rightarrow> real"
  dist_entropy :: "'p \<Rightarrow> real list \<Rightarrow> real"
  randperm :: "nat \<Rightarrow> 'g \<Rightarrow> nat list \<times> 'g"
  backward_and_step :: "real \<Rightarrow> 'p \<times> 'q \<Rightarrow> ('p \<times> 'q \<Rightarrow> real) \<Rightarrow> 'p \<times> 'q"
  normalize_rewards :: "tensor \<Rightarrow> tensor"

text \<open>
  \<open>backward_and_step max_grad_norm (p, q) loss\<close> stands for \<open>zero_grad\<close>, \<open>loss.backward()\<close>,
  the two \<open>clip_grad_norm_\<close> calls and the two optimizer steps, the loss being given as a
  function of the parameters. \<open>torch.randperm(n)\<close> returns a permutation of \<open>0..n-1\<close>.
\<close>

definition randperm_ok :: "('n, 'p, 'q, 'g) collab \<Rightarrow> nat \<Rightarrow> 'g \<Rightarrow> bool" where
  "randperm_ok C n g = (sort (fst (randperm C n g)) = [0..<n])"

section \<open>The agent\<close>

record ('n, 'p, 'q, 'g) ppo_agent =
  state_normalizer :: 'n
  actor :: 'p
  critic :: 'q
  rng :: 'g
  actor_optimizer :: optimizer
  critic_optimizer :: optimizer
  actor_scheduler :: nat
  critic_scheduler :: nat
  buffer :: ppo_buffer
  gamma :: real
  clip_range :: real
  ent_coef :: real
  vf_coef :: real
  max_grad_norm :: real
  num_epochs :: int
  batch_size :: int

text \<open>
  \<open>self.minimum_required_samples = int(self.batch_size * 2)\<close> is set by \<open>__init__\<close> and
  never assigned again, as is \<open>batch_size\<close>.
\<close>

definition minimum_required_samples :: "('n, 'p, 'q, 'g) ppo_agent \<Rightarrow> int" where
  "minimum_required_samples ag = batch_size ag * 2"

datatype mval = MFloat real | MInt int | MStr string

type_synonym metrics = "(string \<times> mval) list"

subsection \<open>act\<close>

definition act ::
  "('n, 'p, 'q, 'g) collab \<Rightarrow> ('n, 'p, 'q, 'g) ppo_agent \<Rightarrow> real list \<Rightarrow>
   action \<times> ('n, 'p, 'q, 'g) ppo_agent" where
  "act C ag state =
     (let normalized_state = rn_normalize C (state_normalizer ag) state;
          ((action, _), g') = get_action_and_log_prob C (actor ag) normalized_state (rng ag)
      in (action, ag\<lparr>rng := g'\<rparr>))"

subsection \<open>Python ranges and slices\<close>

function range_up :: "int \<Rightarrow> int \<Rightarrow> int \<Rightarrow> int list" where
  "range_up start stop step =
     (if 0 < step \<and> start < stop then start # range_up (start + step) stop step else [])"
  by pat_completeness auto
termination
  by (relation "measure (\<lambda>(start, stop, step). nat (stop - start))") auto

function range_down :: "int \<Rightarrow> int \<Rightarrow> int \<Rightarrow> int list" where
  "range_down start stop step =
     (if step < 0 \<and> stop < start then start # range_down (start + step) stop step else [])"
  by pat_completeness auto
termination
  by (relation "measure (\<lambda>(start, stop, step). nat (start - stop))") auto

declare range_up.simps [simp del] range_down.simps [simp del]

text \<open>\<open>range(start, stop, step)\<close> raises \<open>ValueError\<close> when \<open>step\<close> is zero.\<close>

definition py_range :: "int \<Rightarrow> int \<Rightarrow> int \<Rightarrow> py_error + int list" where
  "py_range start stop step =
     (if step = 0 then Inl ValueError
      else if 0 < step then Inr (range_up start stop step)
      else Inr (range_down start stop step))"

text \<open>\<open>xs[start:end]\<close> for \<open>0 \<le> start\<close> and \<open>0 \<le> end\<close>.\<close>

definition slice :: "'a list \<Rightarrow> int \<Rightarrow> int \<Rightarrow> 'a list" where
  "slice xs start end = take (nat end - nat start) (drop (nat start) xs)"

subsection \<open>Losses of one minibatch\<close>

definition policy_loss_of :: "tensor \<Rightarrow> tensor \<Rightarrow> tensor \<Rightarrow> real \<Rightarrow> real" where
  "policy_loss_of log_probs old_log_probs advantages eps =
     (let ratio = t_exp (t_sub log_probs old_log_probs);
          policy_loss_1 = t_mul ratio advantages;
          policy_loss_2 = t_mul (t_clamp ratio (1 - eps) (1 + eps)) advantages
      in - t_mean (t_min policy_loss_1 policy_loss_2))"

definition value_loss_of :: "tensor \<Rightarrow> tensor \<Rightarrow> tensor \<Rightarrow> real \<Rightarrow> real" where
  "value_loss_of vals old_values returns eps =
     (let value_pred_clipped = t_add old_values (t_clamp (t_sub vals old_values) (- eps) eps);
          value_losses = t_pow2 (t_sub vals returns);
          value_losses_clipped = t_pow2 (t_sub value_pred_clipped returns)
      in 0.5 * t_mean (t_max value_losses value_losses_clipped))"

definition total_loss :: "real \<Rightarrow> real \<Rightarrow> real \<Rightarrow> real \<Rightarrow> real \<Rightarrow> real" where
  "total_loss policy_loss value_loss entropy vf ent =
     policy_loss + vf * value_loss - ent * entropy"

text \<open>
  Modelled from the spec: \<open>PPOBuffer.get\<close> returns the stored transitions as
  column-oriented arrays in temporal order; the source reads the rewards under the key
  \<open>normalized_rewards\<close>, whose normalization is a parameter.
\<close>

record batch_data =
  d_states :: "real list list"
  d_actions :: "action list"
  d_values :: tensor
  d_log_probs :: tensor
  d_normalized_rewards :: tensor
  d_dones :: "bool list"

definition buffer_get :: "('n, 'p, 'q, 'g) collab \<Rightarrow> ppo_buffer \<Rightarrow> batch_data" where
  "buffer_get C b =
     \<lparr>d_states = map t_state (items b),
      d_actions = map t_action (items b),
      d_values = map t_value (items b),
      d_log_probs = map t_log_prob (items b),
      d_normalized_rewards = normalize_rewards C (map t_reward (items b)),
      d_dones = map t_done (items b)\<rparr>"

definition mb_values ::
  "('n, 'p, 'q, 'g) collab \<Rightarrow> 'q \<Rightarrow> real list list \<Rightarrow> nat list \<Rightarrow> tensor" where
  "mb_values C q normalized_states batch_indices =
     map (critic_forward C q) (gather normalized_states batch_indices)"

definition mb_log_probs ::
  "('n, 'p, 'q, 'g) collab \<Rightarrow> 'p \<Rightarrow> real list list \<Rightarrow> action list \<Rightarrow> nat list \<Rightarrow> tensor" where
  "mb_log_probs C p normalized_states actions batch_indices =
     map (\<lambda>(s, a). dist_log_prob C p s a)
       (zip (gather normalized_states batch_indices) (gather actions batch_indices))"

definition mb_entropy ::
  "('n, 'p, 'q, 'g) collab \<Rightarrow> 'p \<Rightarrow> real list list \<Rightarrow> nat list \<Rightarrow> real" where
  "mb_entropy C p normalized_states batch_indices =
     t_mean (map (dist_entropy C p) (gather normalized_states batch_indices))"

text \<open>
  The \<open>torch.no_grad()\<close> block of lines 234-251: the bootstrap value, the shifted array
  \<open>next_values\<close> and the call of \<open>compute_gae\<close>, which gets no \<open>lambda\<close> (default 1).
  A minibatch that is not skipped is not empty.
\<close>

record gae_out =
  final_value :: real
  next_values :: tensor
  advantages :: tensor
  returns :: tensor

definition mb_gae ::
  "('n, 'p, 'q, 'g) collab \<Rightarrow> ('n, 'p, 'q, 'g) ppo_agent \<Rightarrow> real list \<Rightarrow>
   real list list \<Rightarrow> batch_data \<Rightarrow> nat list \<Rightarrow> gae_out" where
  "mb_gae C ag final_state normalized_states data batch_indices =
     (let rewards = gather (d_normalized_rewards data) batch_indices;
          dones = gather (d_dones data) batch_indices;
          vals = mb_values C (critic ag) normalized_states batch_indices;
          normalized_final_state = rn_normalize C (state_normalizer ag) final_state;
          fv = critic_forward C (critic ag) normalized_final_state;
          nvs = tl vals @ [fv];
          (adv, ret) = compute_gae rewards vals dones fv (gamma ag) 1
      in \<lparr>final_value = fv, next_values = nvs, advantages = adv, returns = ret\<rparr>)"

record losses =
  policy_loss :: real
  value_loss :: real
  entropy :: real
  loss :: real

text \<open>
  The losses of lines 260-272 as a function of the trainable parameters; the advantages
  and the returns were computed without gradient and are constants here.
\<close>

definition mb_losses ::
  "('n, 'p, 'q, 'g) collab \<Rightarrow> ('n, 'p, 'q, 'g) ppo_agent \<Rightarrow> real list list \<Rightarrow>
   batch_data \<Rightarrow> nat list \<Rightarrow> tensor \<Rightarrow> tensor \<Rightarrow> 'p \<times> 'q \<Rightarrow> losses" where
  "mb_losses C ag normalized_states data batch_indices adv ret pq =
     (let old_values = gather (d_values data) batch_indices;
          old_log_probs = gather (d_log_probs data) batch_indices;
          vals = mb_values C (snd pq) normalized_states batch_indices;
          log_probs = mb_log_probs C (fst pq) normalized_states (d_actions data) batch_indices;
          ent = mb_entropy C (fst pq) normalized_states batch_indices;
          pl = policy_loss_of log_probs old_log_probs adv (clip_range ag);
          vl = value_loss_of vals old_values ret (clip_range ag)
      in \<lparr>policy_loss = pl, value_loss = vl, entropy = ent,
          loss = total_loss pl vl ent (vf_coef ag) (ent_coef ag)\<rparr>)"

subsection \<open>The update loop\<close>

record totals =
  total_policy_loss :: real
  total_value_loss :: real
  total_entropy :: real
  update_count :: nat
  total_value_mean :: real
  total_value_std :: real
  total_advantage_mean :: real
  total_advantage_std :: real

definition totals0 :: totals where
  "totals0 =
     \<lparr>total_policy_loss = 0, total_value_loss = 0, total_entropy = 0, update_count = 0,
      total_value_mean = 0, total_value_std = 0, total_advantage_mean = 0,
      total_advantage_std = 0\<rparr>"

text \<open>
  \<open>end - start < current_batch_size * 0.8\<close>, an integer compared with a float product,
  read over the reals.
\<close>

definition too_small :: "int \<Rightarrow> int \<Rightarrow> int \<Rightarrow> bool" where
  "too_small start end current_batch_size =
     (real_of_int (end - start) < real_of_int current_batch_size * 0.8)"

definition optimizer_step :: "optimizer \<Rightarrow> optimizer" where
  "optimizer_step opt = opt\<lparr>opt_steps := opt_steps opt + 1\<rparr>"

text \<open>The body of \<open>for start in range(0, len(self.buffer), current_batch_size)\<close>.\<close>

definition minibatch_step ::
  "('n, 'p, 'q, 'g) collab \<Rightarrow> real list \<Rightarrow> int \<Rightarrow> batch_data \<Rightarrow> real list list \<Rightarrow>
   nat list \<Rightarrow> ('n, 'p, 'q, 'g) ppo_agent \<times> totals \<Rightarrow> int \<Rightarrow>
   ('n, 'p, 'q, 'g) ppo_agent \<times> totals" where
  "minibatch_step C final_state current_batch_size data normalized_states indices st start =
     (case st of (ag, tot) \<Rightarrow>
        let end = min (start + current_batch_size) (int (buffer_len (buffer ag)))
        in if too_small start end current_batch_size then (ag, tot)
           else
             let batch_indices = slice indices start end;
                 vals = mb_values C (critic ag) normalized_states batch_indices;
                 g = mb_gae C ag final_state normalized_states data batch_indices;
                 f = mb_losses C ag normalized_states data batch_indices
                       (advantages g) (returns g);
                 pq = backward_and_step C (max_grad_norm ag) (actor ag, critic ag)
                        (\<lambda>pq. loss (f pq));
                 l = f (actor ag, critic ag)
             in (ag\<lparr>actor := fst pq, critic := snd pq,
                    actor_optimizer := optimizer_step (actor_optimizer ag),
                    critic_optimizer := optimizer_step (critic_optimizer ag)\<rparr>,
                 tot\<lparr>total_policy_loss := total_policy_loss tot + policy_loss l,
                     total_value_loss := total_value_loss tot + value_loss l,
                     total_entropy := total_entropy tot + entropy l,
                     update_count := update_count tot + 1,
                     total_value_mean := total_value_mean tot + t_mean vals,
                     total_value_std := total_value_std tot + t_std vals,
                     total_advantage_mean := total_advantage_mean tot + t_mean (advantages g),
                     total_advantage_std := total_advantage_std tot + t_std (advantages g)\<rparr>))"

text \<open>One pass of the outer loop up to line 288: a permutation, then the minibatches.\<close>

definition run_epoch ::
  "('n, 'p, 'q, 'g) collab \<Rightarrow> real list \<Rightarrow> int \<Rightarrow> batch_data \<Rightarrow> real list list \<Rightarrow>
   ('n, 'p, 'q, 'g) ppo_agent \<times> totals \<Rightarrow> py_error + ('n, 'p, 'q, 'g) ppo_agent \<times> totals" where
  "run_epoch C final_state current_batch_size data normalized_states st =
     (case st of (ag, tot) \<Rightarrow>
        let (indices, g') = randperm C (buffer_len (buffer ag)) (rng ag);
            ag1 = ag\<lparr>rng := g'\<rparr>
        in (case py_range 0 (int (buffer_len (buffer ag))) current_batch_size of
              Inl e \<Rightarrow> Inl e
            | Inr starts \<Rightarrow>
                Inr (foldl (minibatch_step C final_state current_batch_size data
                              normalized_states indices) (ag1, tot) starts)))"

definition zero_metrics :: "int \<Rightarrow> real \<Rightarrow> metrics" where
  "zero_metrics current_batch_size learning_rate =
     [(''policy_loss'', MFloat 0), (''value_loss'', MFloat 0), (''entropy'', MFloat 0),
      (''batch_size_used'', MInt current_batch_size), (''updates_performed'', MInt 0),
      (''value_mean'', MFloat 0), (''value_std'', MFloat 0),
      (''advantage_mean'', MFloat 0), (''advantage_std'', MFloat 0),
      (''learning_rate'', MFloat learning_rate)]"

definition averaged_metrics :: "totals \<Rightarrow> int \<Rightarrow> real \<Rightarrow> metrics" where
  "averaged_metrics tot current_batch_size learning_rate =
     [(''policy_loss'', MFloat (total_policy_loss tot / real (update_count tot))),
      (''value_loss'', MFloat (total_value_loss tot / real (update_count tot))),
      (''entropy'', MFloat (total_entropy tot / real (update_count tot))),
      (''batch_size_used'', MInt current_batch_size),
      (''updates_performed'', MInt (int (update_count tot))),
      (''value_mean'', MFloat (total_value_mean tot / real (update_count tot))),
      (''value_std'', MFloat (total_value_std tot / real (update_count tot))),
      (''advantage_mean'', MFloat (total_value_mean tot / real (update_count tot))),
      (''advantage_std'', MFloat (total_advantage_std tot / real (update_count tot))),
      (''learning_rate'', MFloat learning_rate)]"

text \<open>
  \<open>for _ in range(self.num_epochs)\<close>: both \<open>return\<close> statements (lines 290-315) are
  indented into the body of this loop, so the first pass returns and the remaining passes
  never run. With no pass at all the function falls off its end and returns \<open>None\<close>.
\<close>

fun epoch_loop ::
  "('n, 'p, 'q, 'g) collab \<Rightarrow> real list \<Rightarrow> int \<Rightarrow> batch_data \<Rightarrow> real list list \<Rightarrow>
   nat list \<Rightarrow> ('n, 'p, 'q, 'g) ppo_agent \<times> totals \<Rightarrow>
   py_error + metrics option \<times> ('n, 'p, 'q, 'g) ppo_agent" where
  "epoch_loop C final_state current_batch_size data normalized_states [] st =
     Inr (None, fst st)"
| "epoch_loop C final_state current_batch_size data normalized_states (e # es) st =
     (case run_epoch C final_state current_batch_size data normalized_states st of
        Inl err \<Rightarrow> Inl err
      | Inr (ag, tot) \<Rightarrow>
          if update_count tot = 0
          then Inr (Some (zero_metrics current_batch_size (lr (actor_optimizer ag))), ag)
          else Inr (Some (averaged_metrics tot current_batch_size (lr (actor_optimizer ag))),
                    ag))"

definition perform_update ::
  "('n, 'p, 'q, 'g) collab \<Rightarrow> ('n, 'p, 'q, 'g) ppo_agent \<Rightarrow> real list \<Rightarrow> int \<Rightarrow>
   py_error + metrics option \<times> ('n, 'p, 'q, 'g) ppo_agent" where
  "perform_update C ag final_state current_batch_size =
     (let data = buffer_get C (buffer ag);
          normalized_states = map (rn_normalize C (state_normalizer ag)) (d_states data)
      in epoch_loop C final_state current_batch_size data normalized_states
           [0..<nat (num_epochs ag)] (ag, totals0))"

subsection \<open>update_networks, update, save and load\<close>

text \<open>\<open>StepLR(optimizer, step_size=100, gamma=0.7).step()\<close>.\<close>

definition scheduler_step :: "nat \<times> optimizer \<Rightarrow> nat \<times> optimizer" where
  "scheduler_step so =
     (case so of (last_epoch, opt) \<Rightarrow>
        (last_epoch + 1,
         if (last_epoch + 1) mod 100 = 0 then opt\<lparr>lr := lr opt * 0.7\<rparr> else opt))"

definition insufficient_metrics :: "nat \<Rightarrow> metrics" where
  "insufficient_metrics n =
     [(''policy_loss'', MFloat 0), (''value_loss'', MFloat 0), (''entropy'', MFloat 0),
      (''skipped_reason'', MStr ''insufficient_data''),
      (''available_samples'', MInt (int n))]"

definition update_networks ::
  "('n, 'p, 'q, 'g) collab \<Rightarrow> ('n, 'p, 'q, 'g) ppo_agent \<Rightarrow> real list \<Rightarrow>
   py_error + metrics option \<times> ('n, 'p, 'q, 'g) ppo_agent" where
  "update_networks C ag final_state =
     (if int (buffer_len (buffer ag)) < minimum_required_samples ag
      then Inr (Some (insufficient_metrics (buffer_len (buffer ag))), ag)
      else
        let adjusted_batch_size = min (batch_size ag) (int (buffer_len (buffer ag)))
        in case perform_update C ag final_state adjusted_batch_size of
             Inl e \<Rightarrow> Inl e
           | Inr (m, ag1) \<Rightarrow>
               let (sa, oa) = scheduler_step (actor_scheduler ag1, actor_optimizer ag1);
                   (sc, oc) = scheduler_step (critic_scheduler ag1, critic_optimizer ag1)
               in Inr (m, ag1\<lparr>actor_scheduler := sa, actor_optimizer := oa,
                                critic_scheduler := sc, critic_optimizer := oc,
                                buffer := buffer_clear (buffer ag1)\<rparr>))"

text \<open>
  The first part of \<open>update\<close> (lines 152-176) stores the transition. The tensor built
  from the \<open>action\<close> argument is bound and not used again.
\<close>

definition store_transition ::
  "('n, 'p, 'q, 'g) collab \<Rightarrow> ('n, 'p, 'q, 'g) ppo_agent \<Rightarrow> real list \<Rightarrow> action \<Rightarrow>
   real \<Rightarrow> bool \<Rightarrow> py_error + ('n, 'p, 'q, 'g) ppo_agent" where
  "store_transition C ag state act_arg reward done =
     (let nz = rn_update C (state_normalizer ag) state;
          normalized_state = rn_normalize C nz state;
          v = critic_forward C (critic ag) normalized_state;
          action_tensor = (case act_arg of Scalar a \<Rightarrow> [a] | Vector as \<Rightarrow> as);
          ((_, log_prob), g') =
             get_action_and_log_prob C (actor ag) normalized_state (rng ag)
      in case buffer_store (buffer ag)
                \<lparr>t_state = state, t_action = act_arg, t_reward = reward, t_value = v,
                 t_log_prob = log_prob, t_done = done\<rparr> of
           Inl e \<Rightarrow> Inl e
         | Inr b \<Rightarrow> Inr (ag\<lparr>state_normalizer := nz, rng := g', buffer := b\<rparr>))"

definition update ::
  "('n, 'p, 'q, 'g) collab \<Rightarrow> ('n, 'p, 'q, 'g) ppo_agent \<Rightarrow> real list \<Rightarrow> action \<Rightarrow>
   real \<Rightarrow> real list \<Rightarrow> bool \<Rightarrow> py_error + metrics option \<times> ('n, 'p, 'q, 'g) ppo_agent" where
  "update C ag state act_arg reward next_state done =
     (case store_transition C ag state act_arg reward done of
        Inl e \<Rightarrow> Inl e
      | Inr ag1 \<Rightarrow>
          if done \<and> minimum_required_samples ag1 \<le> int (buffer_len (buffer ag1))
          then update_networks C ag1 next_state
          else Inr (Some [], ag1))"

record ('n, 'p, 'q) checkpoint =
  actor_state_dict :: 'p
  critic_state_dict :: 'q
  actor_optimizer_state_dict :: optimizer
  critic_optimizer_state_dict :: optimizer
  state_normalizer_dict :: "'n option"

definition save :: "('n, 'p, 'q, 'g) ppo_agent \<Rightarrow> ('n, 'p, 'q) checkpoint" where
  "save ag =
     \<lparr>actor_state_dict = actor ag, critic_state_dict = critic ag,
      actor_optimizer_state_dict = actor_optimizer ag,
      critic_optimizer_state_dict = critic_optimizer ag,
      state_normalizer_dict = Some (state_normalizer ag)\<rparr>"

definition load ::
  "('n, 'p, 'q, 'g) ppo_agent \<Rightarrow> ('n, 'p, 'q) checkpoint \<Rightarrow> ('n, 'p, 'q, 'g) ppo_agent" where
  "load ag ck =
     (let ag1 = ag\<lparr>actor := actor_state_dict ck, critic := critic_state_dict ck,
                   actor_optimizer := actor_optimizer_state_dict ck,
                   critic_optimizer := critic_optimizer_state_dict ck\<rparr>
      in case state_normalizer_dict ck of
           None \<Rightarrow> ag1
         | Some nz \<Rightarrow> ag1\<lparr>state_normalizer := nz\<rparr>)"

section \<open>Temporal-difference error\<close>

text \<open>
  The \<open>delta\<close> of the recursion at position \<open>t\<close>, with the next-step value read from
  the value array itself and the bootstrap value at the last position.
\<close>

definition td_delta :: "tensor \<Rightarrow> tensor \<Rightarrow> bool list \<Rightarrow> real \<Rightarrow> real \<Rightarrow> nat \<Rightarrow> real" where
  "td_delta rewards vals dones next_value gam t =
     rewards ! t
       + gam * (if t = length rewards - 1 then next_value else vals ! (t + 1))
           * (if dones ! t then 0 else 1)
       - vals ! t"

section \<open>Counting the minibatches of one pass\<close>

text \<open>
  The start offsets the inner loop visits for a buffer of \<open>n\<close> transitions, and those
  among them whose minibatch is not skipped.
\<close>

definition starts_of :: "nat \<Rightarrow> int \<Rightarrow> int list" where
  "starts_of n bs = (case py_range 0 (int n) bs of Inl e \<Rightarrow> [] | Inr starts \<Rightarrow> starts)"

definition qualifying :: "nat \<Rightarrow> int \<Rightarrow> int list" where
  "qualifying n bs =
     filter (\<lambda>start. \<not> too_small start (min (start + bs) (int n)) bs) (starts_of n bs)"

text \<open>What the minibatch loop leaves alone: everything but the networks, the step counts
  of the optimizers and the random number generator.\<close>

definition same_frame ::
  "('n, 'p, 'q, 'g) ppo_agent \<Rightarrow> ('n, 'p, 'q, 'g) ppo_agent \<Rightarrow> bool" where
  "same_frame ag ag' =
     (state_normalizer ag' = state_normalizer ag \<and> buffer ag' = buffer ag \<and>
      actor_scheduler ag' = actor_scheduler ag \<and> critic_scheduler ag' = critic_scheduler ag \<and>
      lr (actor_optimizer ag') = lr (actor_optimizer ag) \<and>
      lr (critic_optimizer ag') = lr (critic_optimizer ag) \<and>
      gamma ag' = gamma ag \<and> clip_range ag' = clip_range ag \<and> ent_coef ag' = ent_coef ag \<and>
      vf_coef ag' = vf_coef ag \<and> max_grad_norm ag' = max_grad_norm ag \<and>
      num_epochs ag' = num_epochs ag \<and> batch_size ag' = batch_size ag)"

section \<open>A small agent for concrete runs\<close>

text \<open>
  A critic that returns its single parameter, a policy that samples the scalar action
  \<open>g\<close> when the generator has made \<open>g\<close> draws and gives a scalar action \<open>x\<close> the
  log-probability \<open>- x - 1\<close>, \<open>randperm\<close> as the reversal, an optimizer step that leaves
  the parameters alone; \<open>ex_agent n bs ne\<close> holds \<open>n\<close> transitions of reward 2 and
  has batch size \<open>bs\<close> and \<open>ne\<close> epochs.
\<close>

definition ex_collab :: "(nat, real, real, nat) collab" where
  "ex_collab =
     \<lparr>rn_update = (\<lambda>n s. n + 1),
      rn_normalize = (\<lambda>n s. map (\<lambda>x. x / real (n + 1)) s),
      critic_forward = (\<lambda>q s. q),
      get_action_and_log_prob = (\<lambda>p s g. ((Scalar (real g), - real g - 1), g + 1)),
      dist_log_prob = (\<lambda>p s a. case a of Scalar x \<Rightarrow> - x - 1 | Vector xs \<Rightarrow> - 1),
      dist_entropy = (\<lambda>p s. 0),
      randperm = (\<lambda>n g. (rev [0..<n], g + 1)),
      backward_and_step = (\<lambda>m pq f. pq),
      normalize_rewards = (\<lambda>rs. rs)\<rparr>"

definition ex_transition :: "nat \<Rightarrow> transition" where
  "ex_transition i =
     \<lparr>t_state = [real i], t_action = Scalar 0, t_reward = 2, t_value = 1, t_log_prob = - 1,
      t_done = False\<rparr>"

definition ex_agent :: "nat \<Rightarrow> int \<Rightarrow> int \<Rightarrow> (nat, real, real, nat) ppo_agent" where
  "ex_agent n bs ne =
     \<lparr>state_normalizer = 0, actor = 0, critic = 1, rng = 0,
      actor_optimizer = \<lparr>lr = 1 / 1000, opt_steps = 0\<rparr>,
      critic_optimizer = \<lparr>lr = 1 / 1000, opt_steps = 0\<rparr>,
      actor_scheduler = 0, critic_scheduler = 0,
      buffer = \<lparr>capacity = 64, items = map ex_transition [0..<n]\<rparr>,
      gamma = 1, clip_range = 1 / 5, ent_coef = 1 / 100, vf_coef = 1 / 2,
      max_grad_norm = 1 / 2, num_epochs = ne, batch_size = bs\<rparr>"

section \<open>Frame and counting lemmas\<close>

lemma same_frame_refl: "same_frame ag ag"
  by (simp add: same_frame_def)

lemma same_frame_trans: "same_frame a b \<Longrightarrow> same_frame b c \<Longrightarrow> same_frame a c"
  by (simp add: same_frame_def)

lemma minibatch_step_frame:
  "same_frame ag (fst (minibatch_step C fs bs d ns idx (ag, tot) start))"
  by (simp add: minibatch_step_def Let_def same_frame_def optimizer_step_def)

lemma minibatch_step_count:
  "update_count (snd (minibatch_step C fs bs d ns idx (ag, tot) start)) =
     update_count tot +
       (if too_small start (min (start + bs) (int (buffer_len (buffer ag)))) bs then 0 else 1)"
  by (simp add: minibatch_step_def Let_def)

lemma foldl_minibatch_step:
  "same_frame ag (fst (foldl (minibatch_step C fs bs d ns idx) (ag, tot) starts)) \<and>
   update_count (snd (foldl (minibatch_step C fs bs d ns idx) (ag, tot) starts)) =
     update_count tot +
       length (filter (\<lambda>start. \<not> too_small start
                 (min (start + bs) (int (buffer_len (buffer ag)))) bs) starts)"
proof (induction starts arbitrary: ag tot)
  case Nil
  show ?case by (simp add: same_frame_refl)
next
  case (Cons s starts)
  obtain ag1 tot1 where st: "minibatch_step C fs bs d ns idx (ag, tot) s = (ag1, tot1)"
    by (cases "minibatch_step C fs bs d ns idx (ag, tot) s")
  have f1: "same_frame ag ag1"
    using minibatch_step_frame [of ag C fs bs d ns idx tot s] st by simp
  have c1: "update_count tot1 = update_count tot +
       (if too_small s (min (s + bs) (int (buffer_len (buffer ag)))) bs then 0 else 1)"
    using minibatch_step_count [of C fs bs d ns idx ag tot s] st by simp
  have b: "buffer ag1 = buffer ag" using f1 by (simp add: same_frame_def)
  from Cons.IH [of ag1 tot1] f1 c1 b st show ?case
    by (auto intro: same_frame_trans)
qed

lemma run_epoch_result:
  assumes "bs \<noteq> 0"
  shows "\<exists>ag' tot'. run_epoch C fs bs d ns (ag, tot) = Inr (ag', tot') \<and>
           same_frame ag ag' \<and>
           update_count tot' = update_count tot + length (qualifying (buffer_len (buffer ag)) bs)"
proof -
  obtain indices g' where r: "randperm C (buffer_len (buffer ag)) (rng ag) = (indices, g')"
    by (cases "randperm C (buffer_len (buffer ag)) (rng ag)")
  obtain starts where p: "py_range 0 (int (buffer_len (buffer ag))) bs = Inr starts"
    using assms by (cases "0 < bs") (auto simp: py_range_def)
  let ?ag1 = "ag\<lparr>rng := g'\<rparr>"
  have s: "starts_of (buffer_len (buffer ag)) bs = starts"
    using p by (simp add: starts_of_def)
  have e: "run_epoch C fs bs d ns (ag, tot) =
             Inr (foldl (minibatch_step C fs bs d ns indices) (?ag1, tot) starts)"
    using r p by (simp add: run_epoch_def)
  have fr: "same_frame ag ?ag1" by (simp add: same_frame_def)
  obtain ag' tot' where f: "foldl (minibatch_step C fs bs d ns indices) (?ag1, tot) starts = (ag', tot')"
    by (cases "foldl (minibatch_step C fs bs d ns indices) (?ag1, tot) starts")
  from foldl_minibatch_step [of ?ag1 C fs bs d ns indices tot starts] f
  have "same_frame ?ag1 ag'" and
    "update_count tot' = update_count tot +
       length (filter (\<lambda>start. \<not> too_small start
                 (min (start + bs) (int (buffer_len (buffer ag)))) bs) starts)"
    by simp_all
  then show ?thesis using e f fr s
    by (auto simp: qualifying_def intro: same_frame_trans)
qed

lemma run_epoch_frame:
  assumes "run_epoch C fs bs d ns (ag, tot) = Inr (ag', tot')"
  shows "same_frame ag ag'"
proof (cases "bs = 0")
  case True
  then show ?thesis using assms
    by (simp add: run_epoch_def py_range_def split: prod.splits)
next
  case False
  from run_epoch_result [OF False, of C fs d ns ag tot] assms show ?thesis by auto
qed

lemma perform_update_frame:
  assumes "perform_update C ag fs bs = Inr (m, ag')"
  shows "same_frame ag ag'"
proof (cases "[0..<nat (num_epochs ag)]")
  case Nil
  then show ?thesis using assms by (simp add: perform_update_def Let_def same_frame_refl)
next
  case (Cons e es)
  then show ?thesis using assms
    by (auto simp: perform_update_def Let_def split: sum.splits if_splits dest: run_epoch_frame)
qed

lemma perform_update_result:
  assumes "bs \<noteq> 0" and "1 \<le> num_epochs ag"
  shows "\<exists>m ag'. perform_update C ag fs bs = Inr (Some m, ag') \<and> same_frame ag ag' \<and>
           map_of m ''updates_performed'' =
             Some (MInt (int (length (qualifying (buffer_len (buffer ag)) bs))))"
proof -
  obtain es where l: "[0..<nat (num_epochs ag)] = 0 # es"
    using assms(2) by (cases "[0..<nat (num_epochs ag)]") (auto simp: upt_eq_Cons_conv)
  let ?d = "buffer_get C (buffer ag)"
  let ?ns = "map (rn_normalize C (state_normalizer ag)) (d_states ?d)"
  from run_epoch_result [OF assms(1), of C fs ?d ?ns ag totals0]
  obtain ag' tot' where r: "run_epoch C fs bs ?d ?ns (ag, totals0) = Inr (ag', tot')"
    and fr: "same_frame ag ag'"
    and c: "update_count tot' = length (qualifying (buffer_len (buffer ag)) bs)"
    by (auto simp: totals0_def)
  have lr: "lr (actor_optimizer ag') = lr (actor_optimizer ag)"
    using fr by (simp add: same_frame_def)
  show ?thesis
  proof (cases "update_count tot' = 0")
    case True
    then show ?thesis using l r fr c lr
      by (simp add: perform_update_def Let_def zero_metrics_def)
  next
    case False
    then show ?thesis using l r fr c
      by (simp add: perform_update_def Let_def averaged_metrics_def)
  qed
qed

lemma perform_update_returns:
  assumes "bs \<noteq> 0"
  shows "\<exists>m ag'. perform_update C ag fs bs = Inr (m, ag')"
proof (cases "1 \<le> num_epochs ag")
  case True
  from perform_update_result [OF assms True, of C fs] show ?thesis by blast
next
  case False
  then have "[0..<nat (num_epochs ag)] = []" by simp
  then show ?thesis by (simp add: perform_update_def Let_def)
qed

text \<open>The equations that unfold a concrete run.\<close>

lemmas ex_defs = ex_agent_def ex_collab_def ex_transition_def buffer_len_def
  minimum_required_samples_def

lemmas eval_defs = perform_update_def buffer_get_def upt_rec [of _ "numeral _"] totals0_def
  run_epoch_def py_range_def range_up.simps range_down.simps Let_def minibatch_step_def
  too_small_def slice_def mb_values_def gather_def mb_gae_def compute_gae_def gae_body_def
  mb_losses_def mb_log_probs_def mb_entropy_def policy_loss_of_def value_loss_of_def
  total_loss_def t_mean_def t_std_def numeral_2_eq_2 t_sub_def t_add_def t_mul_def t_min_def
  t_max_def t_exp_def t_pow2_def t_clamp_def clamp_def optimizer_step_def
  averaged_metrics_def zero_metrics_def

lemma qualifying_40_16: "qualifying 40 16 = [0, 16]"
  by (simp add: qualifying_def starts_of_def py_range_def range_up.simps too_small_def)

lemma map_of_zero_metrics:
  "map_of (zero_metrics bs r) ''skipped_reason'' = None"
  "map_of (zero_metrics bs r) ''updates_performed'' = Some (MInt 0)"
  "map_of (zero_metrics bs r) ''policy_loss'' = Some (MFloat 0)"
  "map_of (zero_metrics bs r) ''value_loss'' = Some (MFloat 0)"
  "map_of (zero_metrics bs r) ''entropy'' = Some (MFloat 0)"
  by (simp_all add: zero_metrics_def)

lemma perform_update_zero:
  assumes "bs \<noteq> 0" and "1 \<le> num_epochs ag" and "qualifying (buffer_len (buffer ag)) bs = []"
  shows "\<exists>ag'. perform_update C ag fs bs =
           Inr (Some (zero_metrics bs (lr (actor_optimizer ag))), ag')"
proof -
  obtain es where l: "[0..<nat (num_epochs ag)] = 0 # es"
    using assms(2) by (cases "[0..<nat (num_epochs ag)]") (auto simp: upt_eq_Cons_conv)
  let ?d = "buffer_get C (buffer ag)"
  let ?ns = "map (rn_normalize C (state_normalizer ag)) (d_states ?d)"
  from run_epoch_result [OF assms(1), of C fs ?d ?ns ag totals0]
  obtain ag' tot' where r: "run_epoch C fs bs ?d ?ns (ag, totals0) = Inr (ag', tot')"
    and fr: "same_frame ag ag'"
    and c: "update_count tot' = 0"
    using assms(3) by (auto simp: totals0_def)
  have "lr (actor_optimizer ag') = lr (actor_optimizer ag)"
    using fr by (simp add: same_frame_def)
  then show ?thesis using l r c by (simp add: perform_update_def Let_def)
qed

lemma qualifying_5_16: "qualifying 5 16 = []"
  by (simp add: qualifying_def starts_of_def py_range_def range_up.simps too_small_def)

lemma qualifying_first:
  assumes "0 < bs" and "bs \<le> int n"
  shows "qualifying n bs \<noteq> []"
proof -
  have "range_up 0 (int n) bs = 0 # range_up bs (int n) bs"
    using assms by (subst range_up.simps) simp
  moreover have "\<not> too_small 0 (min (0 + bs) (int n)) bs"
    using assms by (simp add: too_small_def)
  ultimately show ?thesis
    using assms(1) by (simp add: qualifying_def starts_of_def py_range_def)
qed

lemma ex_perform_update_4_2:
  "perform_update ex_collab (ex_agent 4 2 1) [0] 2 =
     Inr (Some
          [(''policy_loss'', MFloat (- 3)), (''value_loss'', MFloat 5),
           (''entropy'', MFloat 0), (''batch_size_used'', MInt 2),
           (''updates_performed'', MInt 2), (''value_mean'', MFloat 1),
           (''value_std'', MFloat 0), (''advantage_mean'', MFloat 1),
           (''advantage_std'', MFloat (sqrt 2)),
           (''learning_rate'', MFloat (1 / 1000))],
          (ex_agent 4 2 1)\<lparr>rng := 1,
             actor_optimizer := \<lparr>lr = 1 / 1000, opt_steps = 2\<rparr>,
             critic_optimizer := \<lparr>lr = 1 / 1000, opt_steps = 2\<rparr>\<rparr>)"
  by (simp add: ex_defs eval_defs)

lemma ex_advantages_4_2:
  "advantages (mb_gae ex_collab (ex_agent 4 2 1) [0]
      (map (rn_normalize ex_collab 0) (d_states (buffer_get ex_collab (buffer (ex_agent 4 2 1)))))
      (buffer_get ex_collab (buffer (ex_agent 4 2 1))) [3, 2]) = [4, 2]"
  "advantages (mb_gae ex_collab (ex_agent 4 2 1) [0]
      (map (rn_normalize ex_collab 0) (d_states (buffer_get ex_collab (buffer (ex_agent 4 2 1)))))
      (buffer_get ex_collab (buffer (ex_agent 4 2 1))) [1, 0]) = [4, 2]"
  by (simp_all add: ex_defs eval_defs)

section \<open>The backward recursion\<close>

lemma gae_loop_length:
  "gae_loop r v d nv g l k st = st' \<Longrightarrow>
     length (fst (snd st')) = length (fst (snd st)) \<and>
     length (snd (snd st')) = length (snd (snd st))"
proof (induction k arbitrary: st)
  case 0
  then show ?case by simp
next
  case (Suc k)
  then show ?case
    by (cases st) (auto simp: gae_body_def Let_def)
qed

lemma gae_loop_inv:
  assumes "gae_loop r v d nv g l k (e, A, R) = (e', A', R')"
    and "k \<le> length A" and "k \<le> length R"
  shows "(\<forall>t<k. A' ! t = td_delta r v d nv g t
                 + g * l * (if d ! t then 0 else 1) * (if t + 1 < k then A' ! (t + 1) else e)
               \<and> R' ! t = A' ! t + v ! t)
         \<and> (\<forall>t\<ge>k. A' ! t = A ! t \<and> R' ! t = R ! t)"
  using assms
proof (induction k arbitrary: e A R)
  case 0
  then show ?case by simp
next
  case (Suc k)
  define e1 where "e1 = td_delta r v d nv g k + g * l * (if d ! k then 0 else 1) * e"
  have body: "gae_body r v d nv g l k (e, A, R) = (e1, A[k := e1], R[k := e1 + v ! k])"
    by (simp add: gae_body_def Let_def e1_def td_delta_def)
  have run: "gae_loop r v d nv g l k (e1, A[k := e1], R[k := e1 + v ! k]) = (e', A', R')"
    using Suc.prems(1) body by simp
  have ih: "(\<forall>t<k. A' ! t = td_delta r v d nv g t
                 + g * l * (if d ! t then 0 else 1) * (if t + 1 < k then A' ! (t + 1) else e1)
               \<and> R' ! t = A' ! t + v ! t)
         \<and> (\<forall>t\<ge>k. A' ! t = (A[k := e1]) ! t \<and> R' ! t = (R[k := e1 + v ! k]) ! t)"
    using Suc.IH [OF run] Suc.prems(2,3) by simp
  have ak: "A' ! k = e1" and rk: "R' ! k = e1 + v ! k"
    using ih Suc.prems(2,3) by simp_all
  have upper: "\<forall>t\<ge>Suc k. A' ! t = A ! t \<and> R' ! t = R ! t"
    using ih by simp
  have lower: "A' ! t = td_delta r v d nv g t
                 + g * l * (if d ! t then 0 else 1) * (if t + 1 < Suc k then A' ! (t + 1) else e)
               \<and> R' ! t = A' ! t + v ! t" if "t < Suc k" for t
  proof (cases "t = k")
    case True
    then show ?thesis using ak rk by (simp add: e1_def)
  next
    case False
    then have tk: "t < k" using that by simp
    show ?thesis
    proof (cases "t + 1 < k")
      case True
      then show ?thesis using ih tk by simp
    next
      case False
      then have "t + 1 = k" using tk by simp
      then show ?thesis using ih tk ak by auto
    qed
  qed
  show ?case using lower upper by blast
qed

lemma compute_gae_length:
  "length (fst (compute_gae r v d nv g l)) = length r \<and>
   length (snd (compute_gae r v d nv g l)) = length r"
proof -
  obtain e' A' R' where
    run: "gae_loop r v d nv g l (length r) (0, replicate (length r) 0, replicate (length r) 0)
            = (e', A', R')"
    by (metis prod_cases3)
  from gae_loop_length [OF run] show ?thesis
    by (simp add: compute_gae_def Let_def run)
qed

lemma compute_gae_nth:
  assumes "t < length r"
  shows "fst (compute_gae r v d nv g l) ! t =
           td_delta r v d nv g t
             + g * l * (if d ! t then 0 else 1)
                 * (if t + 1 < length r then fst (compute_gae r v d nv g l) ! (t + 1) else 0)"
    and "snd (compute_gae r v d nv g l) ! t = fst (compute_gae r v d nv g l) ! t + v ! t"
proof -
  obtain e' A' R' where
    run: "gae_loop r v d nv g l (length r) (0, replicate (length r) 0, replicate (length r) 0)
            = (e', A', R')"
    by (metis prod_cases3)
  have c: "compute_gae r v d nv g l = (A', R')"
    by (simp add: compute_gae_def Let_def run)
  from gae_loop_inv [OF run] assms
  show "fst (compute_gae r v d nv g l) ! t =
           td_delta r v d nv g t
             + g * l * (if d ! t then 0 else 1)
                 * (if t + 1 < length r then fst (compute_gae r v d nv g l) ! (t + 1) else 0)"
    and "snd (compute_gae r v d nv g l) ! t = fst (compute_gae r v d nv g l) ! t + v ! t"
    by (simp_all add: c)
qed

section \<open>Elementwise operations as indexed sums\<close>

lemma sum_list_upt: "sum_list (map f [0..<n]) = (\<Sum>i<n. f i)"
  by (simp add: interv_sum_list_conv_sum_set_nat atLeast0LessThan)

lemma length_mb [simp]:
  "length (mb_values C q ns idx) = length idx"
  "length (mb_log_probs C p ns acts idx) = length idx"
  "length (gather xs idx) = length idx"
  by (simp_all add: mb_values_def mb_log_probs_def gather_def)

lemma length_mb_gae [simp]:
  "length (advantages (mb_gae C ag fs ns data idx)) = length idx"
  "length (returns (mb_gae C ag fs ns data idx)) = length idx"
  using compute_gae_length
    [of "gather (d_normalized_rewards data) idx" "mb_values C (critic ag) ns idx"
        "gather (d_dones data) idx"
        "critic_forward C (critic ag) (rn_normalize C (state_normalizer ag) fs)" "gamma ag" 1]
  by (simp_all add: mb_gae_def Let_def case_prod_beta)

lemma policy_loss_of_sum:
  assumes "length lp = n" and "length old = n" and "length A = n"
  shows "policy_loss_of lp old A eps =
           - ((\<Sum>i<n. min (exp (lp ! i - old ! i) * A ! i)
                          (clamp (exp (lp ! i - old ! i)) (1 - eps) (1 + eps) * A ! i)) / real n)"
proof -
  have "t_min (t_mul (t_exp (t_sub lp old)) A)
              (t_mul (t_clamp (t_exp (t_sub lp old)) (1 - eps) (1 + eps)) A) =
        map (\<lambda>i. min (exp (lp ! i - old ! i) * A ! i)
                     (clamp (exp (lp ! i - old ! i)) (1 - eps) (1 + eps) * A ! i)) [0..<n]"
    using assms
    by (intro nth_equalityI)
       (simp_all add: t_min_def t_mul_def t_exp_def t_sub_def t_clamp_def)
  then show ?thesis
    using assms
    by (simp add: policy_loss_of_def Let_def t_mean_def sum_list_upt
        t_min_def t_mul_def t_exp_def t_sub_def t_clamp_def)
qed

lemma value_loss_of_sum:
  assumes "length V = n" and "length old = n" and "length Rt = n"
  shows "value_loss_of V old Rt eps =
           0.5 * ((\<Sum>i<n. max ((V ! i - Rt ! i) ^ 2)
                             ((clamp (V ! i - old ! i) (- eps) eps + old ! i - Rt ! i) ^ 2))
                  / real n)"
proof -
  have "t_max (t_pow2 (t_sub V Rt))
              (t_pow2 (t_sub (t_add old (t_clamp (t_sub V old) (- eps) eps)) Rt)) =
        map (\<lambda>i. max ((V ! i - Rt ! i) ^ 2)
                     ((clamp (V ! i - old ! i) (- eps) eps + old ! i - Rt ! i) ^ 2)) [0..<n]"
    using assms
    by (intro nth_equalityI)
       (simp_all add: t_max_def t_pow2_def t_add_def t_sub_def t_clamp_def add.commute)
  then show ?thesis
    using assms
    by (simp add: value_loss_of_def Let_def t_mean_def sum_list_upt
        t_max_def t_pow2_def t_add_def t_sub_def t_clamp_def)
qed

section \<open>The indices of a minibatch\<close>

text \<open>
  With a permutation from \<open>randperm\<close> every index of a slice is a position of the buffer,
  the start offsets lie inside the buffer, and a minibatch that is not skipped is not
  empty, so that the reads \<open>xs[batch_indices]\<close> and the write \<open>next_values[-1]\<close> are in
  range.
\<close>

lemma randperm_ok_indices:
  assumes "randperm_ok C n g"
  shows "length (fst (randperm C n g)) = n" and "set (fst (randperm C n g)) = {..<n}"
proof -
  have s: "sort (fst (randperm C n g)) = [0..<n]"
    using assms by (simp add: randperm_ok_def)
  have "length (sort (fst (randperm C n g))) = n" by (simp only: s length_upt)
  then show "length (fst (randperm C n g)) = n" by simp
  have "set (sort (fst (randperm C n g))) = {..<n}"
    by (simp only: s) (simp add: atLeast0LessThan)
  then show "set (fst (randperm C n g)) = {..<n}" by simp
qed

lemma slice_in_range:
  assumes "set indices = {..<n}" and "i \<in> set (slice indices start end)"
  shows "i < n"
proof -
  have "set (slice indices start end) \<subseteq> set indices"
    unfolding slice_def by (meson set_drop_subset set_take_subset subset_trans)
  then show ?thesis using assms by auto
qed

lemma slice_not_empty:
  assumes "0 < bs" and "0 \<le> start" and "start < int (length indices)"
    and "\<not> too_small start (min (start + bs) (int (length indices))) bs"
  shows "length (slice indices start (min (start + bs) (int (length indices)))) =
           nat (min (start + bs) (int (length indices)) - start)"
    and "slice indices start (min (start + bs) (int (length indices))) \<noteq> []"
proof -
  let ?e = "min (start + bs) (int (length indices))"
  have e: "start < ?e" using assms(1,3) by simp
  show l: "length (slice indices start ?e) = nat (?e - start)"
    using assms(2) e by (simp add: slice_def min_def) linarith
  show "slice indices start ?e \<noteq> []"
  proof
    assume "slice indices start ?e = []"
    then have "nat (?e - start) = 0" using l by simp
    then show False using e by simp
  qed
qed

lemma range_up_bounds:
  "start' \<in> set (range_up start stop step) \<Longrightarrow> start \<le> start' \<and> start' < stop"
proof (induction start stop step rule: range_up.induct)
  case (1 start stop step)
  show ?case
  proof (cases "0 < step \<and> start < stop")
    case True
    then have "range_up start stop step = start # range_up (start + step) stop step"
      by (subst range_up.simps) simp
    with 1 True show ?thesis by auto
  next
    case False
    then have "range_up start stop step = []"
      by (subst range_up.simps) simp
    with 1 show ?thesis by simp
  qed
qed

section \<open>Storing a transition\<close>

lemma update_networks_returns:
  assumes "batch_size ag \<noteq> 0"
  shows "\<exists>m ag'. update_networks C ag fs = Inr (m, ag')"
proof (cases "int (buffer_len (buffer ag)) < minimum_required_samples ag")
  case True
  then show ?thesis by (simp add: update_networks_def)
next
  case False
  let ?bs = "min (batch_size ag) (int (buffer_len (buffer ag)))"
  have nz: "?bs \<noteq> 0"
    using assms False by (auto simp: minimum_required_samples_def min_def)
  from perform_update_returns [OF nz, of C ag fs]
  obtain m ag1 where p: "perform_update C ag fs ?bs = Inr (m, ag1)" by blast
  show ?thesis using False p
    by (simp add: update_networks_def Let_def case_prod_beta)
qed

lemma update_networks_frame:
  assumes "update_networks C ag fs = Inr (m, ag')"
  shows "state_normalizer ag' = state_normalizer ag"
proof (cases "int (buffer_len (buffer ag)) < minimum_required_samples ag")
  case True
  then show ?thesis using assms by (simp add: update_networks_def)
next
  case False
  then show ?thesis using assms
    by (auto simp: update_networks_def Let_def case_prod_beta same_frame_def
        split: sum.splits dest!: perform_update_frame)
qed

lemma store_transition_result:
  assumes "store_transition C ag s a r d = Inr ag'"
  shows "state_normalizer ag' = rn_update C (state_normalizer ag) s"
    and "items (buffer ag') = items (buffer ag) @
           [\<lparr>t_state = s, t_action = a, t_reward = r,
             t_value = critic_forward C (critic ag)
                         (rn_normalize C (rn_update C (state_normalizer ag) s) s),
             t_log_prob = snd (fst (get_action_and_log_prob C (actor ag)
                         (rn_normalize C (rn_update C (state_normalizer ag) s) s) (rng ag))),
             t_done = d\<rparr>]"
  using assms
  by (auto simp: store_transition_def Let_def case_prod_beta buffer_store_def
      split: sum.splits if_splits)

lemma store_transition_returns:
  assumes "length (items (buffer ag)) < capacity (buffer ag)"
  shows "\<exists>ag'. store_transition C ag s a r d = Inr ag'"
  using assms
  by (simp add: store_transition_def Let_def case_prod_beta buffer_store_def)

lemma ex_store_transition:
  "store_transition ex_collab (ex_agent 4 2 1) [3] (Scalar 5) 2 False =
     Inr ((ex_agent 4 2 1)\<lparr>state_normalizer := 1, rng := 1,
            buffer := \<lparr>capacity = 64, items = items (buffer (ex_agent 4 2 1)) @
              [\<lparr>t_state = [3], t_action = Scalar 5, t_reward = 2, t_value = 1,
                t_log_prob = - 1, t_done = False\<rparr>]\<rparr>\<rparr>)"
  by (simp add: store_transition_def buffer_store_def ex_defs Let_def)

lemma ex_update:
  "update ex_collab (ex_agent 4 2 1) [3] (Scalar 5) 2 [4] False =
     Inr (Some [], (ex_agent 4 2 1)\<lparr>state_normalizer := 1, rng := 1,
            buffer := \<lparr>capacity = 64, items = items (buffer (ex_agent 4 2 1)) @
              [\<lparr>t_state = [3], t_action = Scalar 5, t_reward = 2, t_value = 1,
                t_log_prob = - 1, t_done = False\<rparr>]\<rparr>\<rparr>)"
  by (simp add: update_def ex_store_transition)

section \<open>Claims\<close>

text \<open>
  C3. With fewer than \<open>minimum_required_samples\<close> (twice the batch size) transitions
  in the buffer, \<open>update_networks\<close> returns without raising, leaves the whole agent as it
  was (no optimizer step, no scheduler step, buffer not cleared) and reports
  \<open>skipped_reason = insufficient_data\<close> in the returned metrics.
\<close>

theorem update_networks_insufficient_data:
  assumes "int (buffer_len (buffer ag)) < minimum_required_samples ag"
  shows "update_networks C ag final_state =
           Inr (Some (insufficient_metrics (buffer_len (buffer ag))), ag) \<and>
         map_of (insufficient_metrics (buffer_len (buffer ag))) ''skipped_reason'' =
           Some (MStr ''insufficient_data'')"
  using assms by (simp add: update_networks_def insufficient_metrics_def)

theorem update_networks_insufficient_data_witness:
  "int (buffer_len (buffer (ex_agent 31 16 4))) < minimum_required_samples (ex_agent 31 16 4) \<and>
   update_networks ex_collab (ex_agent 31 16 4) [0] =
     Inr (Some (insufficient_metrics 31), ex_agent 31 16 4) \<and>
   map_of (insufficient_metrics 31) ''skipped_reason'' = Some (MStr ''insufficient_data'')"
proof -
  have h: "int (buffer_len (buffer (ex_agent 31 16 4))) < minimum_required_samples (ex_agent 31 16 4)"
    by (simp add: ex_defs)
  have l: "buffer_len (buffer (ex_agent 31 16 4)) = 31"
    by (simp add: ex_defs)
  show ?thesis
    using h update_networks_insufficient_data [OF h, of ex_collab "[0]"] by (simp add: l)
qed

text \<open>
  C7. With at least \<open>minimum_required_samples\<close> transitions stored, whenever
  \<open>update_networks\<close> returns, the loop of \<open>_perform_update\<close> has left both schedulers where
  they were, each scheduler has then been stepped exactly once, and the buffer is empty.
  It does return for every batch size other than 0 (for which \<open>range\<close> raises).
\<close>

theorem update_networks_schedulers_and_clear:
  assumes "minimum_required_samples ag \<le> int (buffer_len (buffer ag))"
  shows "(batch_size ag \<noteq> 0 \<longrightarrow> (\<exists>m ag'. update_networks C ag fs = Inr (m, ag'))) \<and>
         (\<forall>m ag'. update_networks C ag fs = Inr (m, ag') \<longrightarrow>
            (\<exists>ag1. perform_update C ag fs (min (batch_size ag) (int (buffer_len (buffer ag))))
                      = Inr (m, ag1) \<and>
                   actor_scheduler ag1 = actor_scheduler ag \<and>
                   critic_scheduler ag1 = critic_scheduler ag) \<and>
            actor_scheduler ag' = actor_scheduler ag + 1 \<and>
            critic_scheduler ag' = critic_scheduler ag + 1 \<and>
            items (buffer ag') = [] \<and> buffer_len (buffer ag') = 0)"
proof (intro conjI impI allI)
  assume "batch_size ag \<noteq> 0"
  then show "\<exists>m ag'. update_networks C ag fs = Inr (m, ag')"
    by (rule update_networks_returns)
next
  fix m ag'
  assume u: "update_networks C ag fs = Inr (m, ag')"
  let ?bs = "min (batch_size ag) (int (buffer_len (buffer ag)))"
  from u assms obtain ag1 where p: "perform_update C ag fs ?bs = Inr (m, ag1)"
    and a: "ag' = ag1\<lparr>actor_scheduler := fst (scheduler_step (actor_scheduler ag1, actor_optimizer ag1)),
                       actor_optimizer := snd (scheduler_step (actor_scheduler ag1, actor_optimizer ag1)),
                       critic_scheduler := fst (scheduler_step (critic_scheduler ag1, critic_optimizer ag1)),
                       critic_optimizer := snd (scheduler_step (critic_scheduler ag1, critic_optimizer ag1)),
                       buffer := buffer_clear (buffer ag1)\<rparr>"
    by (auto simp: update_networks_def Let_def case_prod_beta split: sum.splits)
  have fr: "same_frame ag ag1" using perform_update_frame [OF p] .
  show "\<exists>ag1. perform_update C ag fs ?bs = Inr (m, ag1) \<and>
               actor_scheduler ag1 = actor_scheduler ag \<and>
               critic_scheduler ag1 = critic_scheduler ag"
    using p fr by (auto simp: same_frame_def)
  show "actor_scheduler ag' = actor_scheduler ag + 1"
    using a fr by (simp add: scheduler_step_def same_frame_def)
  show "critic_scheduler ag' = critic_scheduler ag + 1"
    using a fr by (simp add: scheduler_step_def same_frame_def)
  show "items (buffer ag') = []"
    using a by (simp add: buffer_clear_def)
  show "buffer_len (buffer ag') = 0"
    using a by (simp add: buffer_clear_def buffer_len_def)
qed

theorem update_networks_schedulers_and_clear_witness:
  "minimum_required_samples (ex_agent 4 2 3) \<le> int (buffer_len (buffer (ex_agent 4 2 3))) \<and>
   batch_size (ex_agent 4 2 3) \<noteq> 0 \<and>
   (\<exists>m ag'. update_networks ex_collab (ex_agent 4 2 3) [0] = Inr (m, ag') \<and>
      actor_scheduler ag' = 1 \<and> critic_scheduler ag' = 1 \<and> items (buffer ag') = [])"
proof -
  have h1: "minimum_required_samples (ex_agent 4 2 3) \<le> int (buffer_len (buffer (ex_agent 4 2 3)))"
    by (simp add: ex_defs)
  have h2: "batch_size (ex_agent 4 2 3) \<noteq> 0"
    by (simp add: ex_defs)
  have s: "actor_scheduler (ex_agent 4 2 3) = 0" "critic_scheduler (ex_agent 4 2 3) = 0"
    by (simp_all add: ex_defs)
  from update_networks_schedulers_and_clear [OF h1, of ex_collab "[0]"] h2
  obtain m ag' where u: "update_networks ex_collab (ex_agent 4 2 3) [0] = Inr (m, ag')"
    by blast
  from update_networks_schedulers_and_clear [OF h1, of ex_collab "[0]"] u
  have "actor_scheduler ag' = 1 \<and> critic_scheduler ag' = 1 \<and> items (buffer ag') = []"
    by (simp add: s)
  then show ?thesis using h1 h2 u by blast
qed

text \<open>
  C1. The claim: with at least \<open>2 * batch_size\<close> transitions stored, the update runs
  \<open>num_epochs\<close> passes and \<open>updates_performed\<close> is \<open>num_epochs\<close> times the number of
  minibatches of one pass that are not skipped. What the code does: the \<open>return\<close>
  statements sit inside the epoch loop, so for a positive batch size and at least one
  epoch \<open>updates_performed\<close> is the number of minibatches of a single pass that are not
  skipped, whatever \<open>num_epochs\<close> is. With 40 transitions, batch size 16 and 4 epochs the
  result is 2, not 8.
\<close>

theorem update_networks_updates_performed:
  assumes "0 < batch_size ag"
    and "minimum_required_samples ag \<le> int (buffer_len (buffer ag))"
    and "1 \<le> num_epochs ag"
  shows "\<exists>m ag'. update_networks C ag fs = Inr (Some m, ag') \<and>
           map_of m ''updates_performed'' =
             Some (MInt (int (length (qualifying (buffer_len (buffer ag)) (batch_size ag)))))"
proof -
  have bs: "min (batch_size ag) (int (buffer_len (buffer ag))) = batch_size ag"
    using assms(1,2) by (simp add: minimum_required_samples_def)
  have nz: "batch_size ag \<noteq> 0" using assms(1) by simp
  from perform_update_result [OF nz assms(3), of C fs]
  obtain m ag1 where p: "perform_update C ag fs (batch_size ag) = Inr (Some m, ag1)"
    and c: "map_of m ''updates_performed'' =
             Some (MInt (int (length (qualifying (buffer_len (buffer ag)) (batch_size ag)))))"
    by blast
  show ?thesis
    using assms(2) p c bs
    by (auto simp: update_networks_def Let_def split: prod.splits)
qed

theorem update_networks_updates_performed_witness:
  "0 < batch_size (ex_agent 40 16 4) \<and>
   minimum_required_samples (ex_agent 40 16 4) \<le> int (buffer_len (buffer (ex_agent 40 16 4))) \<and>
   1 \<le> num_epochs (ex_agent 40 16 4) \<and>
   (\<exists>m ag'. update_networks ex_collab (ex_agent 40 16 4) [0] = Inr (Some m, ag') \<and>
      map_of m ''updates_performed'' = Some (MInt 2)) \<and>
   num_epochs (ex_agent 40 16 4) * 2 = 8"
proof -
  have h1: "0 < batch_size (ex_agent 40 16 4)" by (simp add: ex_defs)
  have h2: "minimum_required_samples (ex_agent 40 16 4) \<le> int (buffer_len (buffer (ex_agent 40 16 4)))"
    by (simp add: ex_defs)
  have h3: "1 \<le> num_epochs (ex_agent 40 16 4)" by (simp add: ex_defs)
  have l: "buffer_len (buffer (ex_agent 40 16 4)) = 40" "batch_size (ex_agent 40 16 4) = 16"
    "num_epochs (ex_agent 40 16 4) = 4"
    by (simp_all add: ex_defs)
  show ?thesis
    using h1 h2 h3 update_networks_updates_performed [OF h1 h2 h3, of ex_collab "[0]"]
    by (simp add: l qualifying_40_16)
qed

text \<open>
  C4, as amended. When \<open>_perform_update\<close> runs a pass in which no minibatch qualifies, it
  returns the zero-filled metrics record (zero losses, \<open>updates_performed = 0\<close>, with the
  batch size used and the learning rate) and this record has no \<open>skipped_reason\<close> key.
\<close>

theorem perform_update_zero_minibatches:
  assumes "bs \<noteq> 0" and "1 \<le> num_epochs ag" and "qualifying (buffer_len (buffer ag)) bs = []"
  shows "\<exists>m ag'. perform_update C ag fs bs = Inr (Some m, ag') \<and>
           m = zero_metrics bs (lr (actor_optimizer ag)) \<and>
           map_of m ''policy_loss'' = Some (MFloat 0) \<and>
           map_of m ''value_loss'' = Some (MFloat 0) \<and>
           map_of m ''entropy'' = Some (MFloat 0) \<and>
           map_of m ''updates_performed'' = Some (MInt 0) \<and>
           map_of m ''skipped_reason'' = None"
  using perform_update_zero [OF assms, of C fs] by (auto simp: map_of_zero_metrics)

theorem perform_update_zero_minibatches_witness:
  "(16::int) \<noteq> 0 \<and> 1 \<le> num_epochs (ex_agent 5 16 4) \<and>
   qualifying (buffer_len (buffer (ex_agent 5 16 4))) 16 = [] \<and>
   (\<exists>m ag'. perform_update ex_collab (ex_agent 5 16 4) [0] 16 = Inr (Some m, ag') \<and>
      map_of m ''updates_performed'' = Some (MInt 0) \<and>
      map_of m ''skipped_reason'' = None)"
proof -
  have h1: "(16::int) \<noteq> 0" by simp
  have h2: "1 \<le> num_epochs (ex_agent 5 16 4)" by (simp add: ex_defs)
  have l: "buffer_len (buffer (ex_agent 5 16 4)) = 5" by (simp add: ex_defs)
  have h3: "qualifying (buffer_len (buffer (ex_agent 5 16 4))) 16 = []"
    by (simp add: l qualifying_5_16)
  show ?thesis
    using h1 h2 h3 perform_update_zero_minibatches [OF h1 h2 h3, of ex_collab "[0]"] by blast
qed

text \<open>
  C4 as stated fails: a buffer of 5 transitions with batch size 16 has one minibatch, of
  size 5, which is skipped; and with the batch size \<open>- 1\<close> a buffer of 4 transitions
  passes the threshold of \<open>update_networks\<close> and the inner loop is empty. In both runs the
  record returned has no \<open>skipped_reason\<close>.
\<close>

theorem zero_minibatches_skipped_reason_counterexample:
  "perform_update ex_collab (ex_agent 5 16 4) [0] 16 =
     Inr (Some (zero_metrics 16 (1 / 1000)), (ex_agent 5 16 4)\<lparr>rng := 1\<rparr>) \<and>
   update_networks ex_collab (ex_agent 4 (- 1) 4) [0] =
     Inr (Some (zero_metrics (- 1) (1 / 1000)),
          (ex_agent 4 (- 1) 4)\<lparr>rng := 1, actor_scheduler := 1, critic_scheduler := 1,
             buffer := \<lparr>capacity = 64, items = []\<rparr>\<rparr>) \<and>
   map_of (zero_metrics 16 (1 / 1000)) ''skipped_reason'' = None \<and>
   map_of (zero_metrics (- 1) (1 / 1000)) ''skipped_reason'' = None"
  by (simp add: ex_defs eval_defs update_networks_def scheduler_step_def buffer_clear_def)

text \<open>
  C2. In every minibatch the advantages and the returns are those of the backward
  recursion over the minibatch's rewards, current values and done flags: the bootstrap is
  the critic's value of the normalized final state, the next-step value at position \<open>t\<close>
  is entry \<open>t\<close> of \<open>next_values\<close>, that is the value at position \<open>t + 1\<close> of the
  minibatch's value array with the bootstrap value at the last position, the running
  \<open>gae\<close> starts at 0 behind the last position, and \<open>returns\<close> adds the values.
\<close>

theorem mb_gae_backward_recursion:
  "let g = mb_gae C ag fs ns data idx;
       B = length idx;
       V = mb_values C (critic ag) ns idx;
       R = gather (d_normalized_rewards data) idx;
       D = gather (d_dones data) idx
   in final_value g = critic_forward C (critic ag) (rn_normalize C (state_normalizer ag) fs) \<and>
      next_values g = tl V @ [final_value g] \<and>
      advantages g =
        map (\<lambda>t. R ! t + gamma ag * next_values g ! t * (if D ! t then 0 else 1) - V ! t
                 + gamma ag * (if D ! t then 0 else 1)
                     * (if t + 1 < B then advantages g ! (t + 1) else 0)) [0..<B] \<and>
      returns g = map (\<lambda>t. advantages g ! t + V ! t) [0..<B]"
proof -
  let ?V = "mb_values C (critic ag) ns idx"
  let ?R = "gather (d_normalized_rewards data) idx"
  let ?D = "gather (d_dones data) idx"
  let ?fv = "critic_forward C (critic ag) (rn_normalize C (state_normalizer ag) fs)"
  let ?g = "mb_gae C ag fs ns data idx"
  have fv: "final_value ?g = ?fv" and nv: "next_values ?g = tl ?V @ [?fv]"
    and adv: "advantages ?g = fst (compute_gae ?R ?V ?D ?fv (gamma ag) 1)"
    and ret: "returns ?g = snd (compute_gae ?R ?V ?D ?fv (gamma ag) 1)"
    by (simp_all add: mb_gae_def Let_def case_prod_beta)
  have shift: "(tl ?V @ [?fv]) ! t = (if t = length ?R - 1 then ?fv else ?V ! (t + 1))"
    if "t < length idx" for t
    using that by (auto simp: nth_append nth_tl)
  have a: "advantages ?g ! t =
             ?R ! t + gamma ag * next_values ?g ! t * (if ?D ! t then 0 else 1) - ?V ! t
               + gamma ag * (if ?D ! t then 0 else 1)
                   * (if t + 1 < length idx then advantages ?g ! (t + 1) else 0)"
    if "t < length idx" for t
    using compute_gae_nth(1) [of t ?R ?V ?D ?fv "gamma ag" 1] that shift [OF that]
    by (simp add: adv nv td_delta_def)
  have r: "returns ?g ! t = advantages ?g ! t + ?V ! t" if "t < length idx" for t
    using compute_gae_nth(2) [of t ?R ?V ?D ?fv "gamma ag" 1] that
    by (simp add: adv ret)
  have "advantages ?g =
        map (\<lambda>t. ?R ! t + gamma ag * next_values ?g ! t * (if ?D ! t then 0 else 1) - ?V ! t
                 + gamma ag * (if ?D ! t then 0 else 1)
                     * (if t + 1 < length idx then advantages ?g ! (t + 1) else 0))
          [0..<length idx]"
    by (intro nth_equalityI) (simp_all add: a)
  moreover have "returns ?g = map (\<lambda>t. advantages ?g ! t + ?V ! t) [0..<length idx]"
    by (intro nth_equalityI) (simp_all add: r)
  ultimately show ?thesis
    using fv nv by (simp add: Let_def)
qed

text \<open>
  C5. The policy loss of a minibatch is the negated mean of
  \<open>min (ratio * advantage) (clip ratio (1 - clip_range) (1 + clip_range) * advantage)\<close>
  with \<open>ratio = exp (new_log_prob - old_log_prob)\<close>.
\<close>

theorem policy_loss_clipped_surrogate:
  "let g = mb_gae C ag fs ns data idx;
       new_lp = mb_log_probs C (fst pq) ns (d_actions data) idx;
       old_lp = gather (d_log_probs data) idx;
       ratio = (\<lambda>i. exp (new_lp ! i - old_lp ! i));
       A = advantages g
   in policy_loss (mb_losses C ag ns data idx (advantages g) (returns g) pq) =
        - ((\<Sum>i<length idx.
              min (ratio i * A ! i)
                  (clamp (ratio i) (1 - clip_range ag) (1 + clip_range ag) * A ! i))
           / real (length idx))"
  by (simp add: Let_def mb_losses_def
      policy_loss_of_sum [where n = "length idx"])

text \<open>
  C6. The value loss of a minibatch is \<open>0.5\<close> times the mean of the larger of
  \<open>(V - return)\<^sup>2\<close> and \<open>(clip (V - V_old) (- clip_range) clip_range + V_old - return)\<^sup>2\<close>,
  and the loss handed to the optimizers is
  \<open>policy_loss + vf_coef * value_loss - ent_coef * entropy\<close>.
\<close>

theorem value_loss_and_total_loss:
  "let g = mb_gae C ag fs ns data idx;
       l = mb_losses C ag ns data idx (advantages g) (returns g) pq;
       V = mb_values C (snd pq) ns idx;
       V_old = gather (d_values data) idx;
       Rt = returns g;
       eps = clip_range ag
   in value_loss l =
        0.5 * ((\<Sum>i<length idx.
                  max ((V ! i - Rt ! i) ^ 2)
                      ((clamp (V ! i - V_old ! i) (- eps) eps + V_old ! i - Rt ! i) ^ 2))
               / real (length idx)) \<and>
      loss l = policy_loss l + vf_coef ag * value_loss l - ent_coef ag * entropy l"
  by (simp add: Let_def mb_losses_def total_loss_def
      value_loss_of_sum [where n = "length idx"])

text \<open>
  C8, as amended. \<open>act\<close> leaves the normalizer as it was; \<open>update\<close> folds the incoming
  state into the normalizer first and normalizes that same state with the updated
  statistics for the critic's value and for the log-probability it stores;
  \<open>_perform_update\<close>, \<open>update_networks\<close> and \<open>save\<close> leave the normalizer as it was; and
  \<open>load\<close> replaces it by the normalizer of the checkpoint when the checkpoint has one.
\<close>

theorem normalizer_mutated_by_update_and_load_only:
  assumes "store_transition C ag s a r d = Inr ag1"
    and "update C ag s a r ns d = Inr (m2, ag2)"
    and "perform_update C ag fs bs = Inr (m3, ag3)"
    and "update_networks C ag fs = Inr (m4, ag4)"
  shows "state_normalizer (snd (act C ag s)) = state_normalizer ag \<and>
         state_normalizer ag1 = rn_update C (state_normalizer ag) s \<and>
         t_value (last (items (buffer ag1))) =
           critic_forward C (critic ag) (rn_normalize C (state_normalizer ag1) s) \<and>
         t_log_prob (last (items (buffer ag1))) =
           snd (fst (get_action_and_log_prob C (actor ag)
                       (rn_normalize C (state_normalizer ag1) s) (rng ag))) \<and>
         state_normalizer ag2 = rn_update C (state_normalizer ag) s \<and>
         state_normalizer ag3 = state_normalizer ag \<and>
         state_normalizer ag4 = state_normalizer ag \<and>
         state_normalizer_dict (save ag) = Some (state_normalizer ag) \<and>
         state_normalizer (load ag ck) =
           (case state_normalizer_dict ck of None \<Rightarrow> state_normalizer ag | Some nz \<Rightarrow> nz)"
proof -
  have a: "state_normalizer (snd (act C ag s)) = state_normalizer ag"
    by (simp add: act_def Let_def case_prod_beta)
  note st = store_transition_result [OF assms(1)]
  have u: "state_normalizer ag2 = rn_update C (state_normalizer ag) s"
    using assms(1,2) st(1)
    by (auto simp: update_def split: if_splits dest: update_networks_frame)
  have p: "state_normalizer ag3 = state_normalizer ag"
    using perform_update_frame [OF assms(3)] by (simp add: same_frame_def)
  have n: "state_normalizer ag4 = state_normalizer ag"
    using update_networks_frame [OF assms(4)] .
  have l: "state_normalizer (load ag ck) =
           (case state_normalizer_dict ck of None \<Rightarrow> state_normalizer ag | Some nz \<Rightarrow> nz)"
    by (simp add: load_def Let_def split: option.splits)
  show ?thesis using a st u p n l by (simp add: save_def)
qed

theorem normalizer_mutated_by_update_and_load_only_witness:
  "\<exists>ag1 m2 ag2 m3 ag3 m4 ag4.
     store_transition ex_collab (ex_agent 4 2 1) [3] (Scalar 5) 2 False = Inr ag1 \<and>
     update ex_collab (ex_agent 4 2 1) [3] (Scalar 5) 2 [4] False = Inr (m2, ag2) \<and>
     perform_update ex_collab (ex_agent 4 2 1) [0] 2 = Inr (m3, ag3) \<and>
     update_networks ex_collab (ex_agent 4 2 1) [0] = Inr (m4, ag4) \<and>
     state_normalizer (snd (act ex_collab (ex_agent 4 2 1) [3])) = 0 \<and>
     state_normalizer ag1 = 1 \<and> state_normalizer ag2 = 1 \<and>
     state_normalizer ag3 = 0 \<and> state_normalizer ag4 = 0"
proof -
  have bs: "batch_size (ex_agent 4 2 1) \<noteq> 0" by (simp add: ex_defs)
  from update_networks_returns [OF bs, of ex_collab "[0]"]
  obtain m4 ag4 where h4: "update_networks ex_collab (ex_agent 4 2 1) [0] = Inr (m4, ag4)"
    by blast
  have n0: "state_normalizer (ex_agent 4 2 1) = 0" by (simp add: ex_defs)
  have up: "rn_update ex_collab 0 [3] = 1" by (simp add: ex_defs)
  from normalizer_mutated_by_update_and_load_only
         [OF ex_store_transition ex_update ex_perform_update_4_2 h4]
  show ?thesis
    using ex_store_transition ex_update ex_perform_update_4_2 h4
    by (simp add: n0 up)
qed

text \<open>
  C8 as stated fails in its last part, that no other operation mutates the normalizer:
  loading a checkpoint whose normalizer is 7 into an agent whose normalizer is 0 leaves
  the agent with the normalizer 7.
\<close>

theorem load_mutates_normalizer_counterexample:
  "state_normalizer (ex_agent 4 2 1) = 0 \<and>
   state_normalizer (load (ex_agent 4 2 1) (save ((ex_agent 4 2 1)\<lparr>state_normalizer := 7\<rparr>))) = 7"
  by (simp add: ex_defs load_def save_def)

text \<open>
  C10. The log-probability that \<open>update\<close> stores with a transition is the one returned
  by \<open>get_action_and_log_prob\<close> for the action it samples at the normalized state; the
  stored action is the \<open>action\<close> argument, and the stored log-probability is the same
  whatever that argument is. \<open>update\<close> goes on from the agent so obtained.
\<close>

theorem stored_log_prob_is_of_fresh_sample:
  assumes "store_transition C ag s a r d = Inr ag'"
  shows "t_action (last (items (buffer ag'))) = a \<and>
         t_log_prob (last (items (buffer ag'))) =
           snd (fst (get_action_and_log_prob C (actor ag)
                       (rn_normalize C (rn_update C (state_normalizer ag) s) s) (rng ag))) \<and>
         (\<exists>ag2. store_transition C ag s a2 r d = Inr ag2 \<and>
            t_log_prob (last (items (buffer ag2))) = t_log_prob (last (items (buffer ag')))) \<and>
         update C ag s a r ns d =
           (if d \<and> minimum_required_samples ag' \<le> int (buffer_len (buffer ag'))
            then update_networks C ag' ns else Inr (Some [], ag'))"
proof -
  note st = store_transition_result [OF assms]
  have cap: "length (items (buffer ag)) < capacity (buffer ag)"
    using assms
    by (auto simp: store_transition_def Let_def case_prod_beta buffer_store_def
        split: if_splits)
  from store_transition_returns [OF cap, of C s a2 r d]
  obtain ag2 where s2: "store_transition C ag s a2 r d = Inr ag2" by blast
  note st2 = store_transition_result [OF s2]
  show ?thesis using st st2 s2 assms by (simp add: update_def)
qed

theorem stored_log_prob_is_of_fresh_sample_witness:
  "store_transition ex_collab (ex_agent 4 2 1) [3] (Scalar 5) 2 False =
     Inr ((ex_agent 4 2 1)\<lparr>state_normalizer := 1, rng := 1,
            buffer := \<lparr>capacity = 64, items = items (buffer (ex_agent 4 2 1)) @
              [\<lparr>t_state = [3], t_action = Scalar 5, t_reward = 2, t_value = 1,
                t_log_prob = - 1, t_done = False\<rparr>]\<rparr>\<rparr>) \<and>
   get_action_and_log_prob ex_collab 0 (rn_normalize ex_collab 1 [3]) 0 = ((Scalar 0, - 1), 1) \<and>
   dist_log_prob ex_collab 0 (rn_normalize ex_collab 1 [3]) (Scalar 5) = - 6"
proof -
  have e: "get_action_and_log_prob ex_collab 0 (rn_normalize ex_collab 1 [3]) 0 = ((Scalar 0, - 1), 1)"
    "dist_log_prob ex_collab 0 (rn_normalize ex_collab 1 [3]) (Scalar 5) = - 6"
    by (simp_all add: ex_defs)
  from stored_log_prob_is_of_fresh_sample [OF ex_store_transition, of "Scalar 5" "[4]"]
  show ?thesis using ex_store_transition e by simp
qed

text \<open>
  C9. The claim: each of the seven averaged entries of the returned metrics is the mean
  over the counted minibatches of that same quantity, \<open>advantage_mean\<close> in particular.
  What the code does: the entry \<open>advantage_mean\<close> is \<open>total_value_mean / update_count\<close>, so
  it always equals the entry \<open>value_mean\<close>. In the run below both minibatches have the
  advantage mean 3 and the value mean 1, and \<open>advantage_mean\<close> is reported as 1.
\<close>

theorem perform_update_advantage_mean:
  assumes "perform_update C ag fs bs = Inr (Some m, ag')"
  shows "map_of m ''advantage_mean'' = map_of m ''value_mean''"
proof (cases "[0..<nat (num_epochs ag)]")
  case Nil
  then show ?thesis using assms by (simp add: perform_update_def Let_def)
next
  case (Cons e es)
  then show ?thesis using assms
    by (auto simp: perform_update_def Let_def zero_metrics_def averaged_metrics_def
        split: sum.splits if_splits)
qed

theorem perform_update_advantage_mean_witness:
  "(\<exists>m ag'. perform_update ex_collab (ex_agent 4 2 1) [0] 2 = Inr (Some m, ag') \<and>
      map_of m ''advantage_mean'' = Some (MFloat 1) \<and>
      map_of m ''value_mean'' = Some (MFloat 1) \<and>
      map_of m ''updates_performed'' = Some (MInt 2)) \<and>
   t_mean (advantages (mb_gae ex_collab (ex_agent 4 2 1) [0]
      (map (rn_normalize ex_collab 0) (d_states (buffer_get ex_collab (buffer (ex_agent 4 2 1)))))
      (buffer_get ex_collab (buffer (ex_agent 4 2 1))) [3, 2])) = 3 \<and>
   t_mean (advantages (mb_gae ex_collab (ex_agent 4 2 1) [0]
      (map (rn_normalize ex_collab 0) (d_states (buffer_get ex_collab (buffer (ex_agent 4 2 1)))))
      (buffer_get ex_collab (buffer (ex_agent 4 2 1))) [1, 0])) = 3"
proof -
  have t: "t_mean [4, 2] = 3" by (simp add: t_mean_def)
  from perform_update_advantage_mean [OF ex_perform_update_4_2]
  show ?thesis
    unfolding ex_advantages_4_2 t
    using ex_perform_update_4_2 by simp
qed

end
